theory Spec2Isabelle
  imports Main
begin

section \<open>Python values, exceptions and the operations the program applies to them\<close>

text \<open>
  The program is Python: \<^verbatim>\<open>gemini_logic.py\<close> (the schema and \<^verbatim>\<open>analyze_user_input\<close>) and
  \<^verbatim>\<open>app.py\<close> (the Streamlit page with \<^verbatim>\<open>generate_report\<close> and \<^verbatim>\<open>display_history\<close>).
  Dictionaries keep their insertion order, so they are association lists; a \<^verbatim>\<open>str\<close> is held
  as the list of its UTF-8 bytes; \<^verbatim>\<open>int\<close> is unbounded.
\<close>

datatype py =
    PNone
  | PBool bool
  | PInt int
  | PStr string
  | PList "py list"
  | PDict "(string \<times> py) list"

text \<open>
  An instance of a subclass of \<^verbatim>\<open>Exception\<close>: its class name and what \<^verbatim>\<open>str(e)\<close> gives.
  \<^verbatim>\<open>except Exception\<close> handles every value of this type.
\<close>

datatype py_exception = PyException (exc_class: string) (exc_str: string)

definition then_do :: "py_exception + 'a \<Rightarrow> ('a \<Rightarrow> py_exception + 'b) \<Rightarrow> py_exception + 'b" where
  "then_do r f = (case r of Inl e \<Rightarrow> Inl e | Inr v \<Rightarrow> f v)"

text \<open>Truth value of an object, as \<^verbatim>\<open>if x:\<close> takes it.\<close>

fun truthy :: "py \<Rightarrow> bool" where
  "truthy PNone = False"
| "truthy (PBool b) = b"
| "truthy (PInt i) = (i \<noteq> 0)"
| "truthy (PStr s) = (s \<noteq> [])"
| "truthy (PList xs) = (xs \<noteq> [])"
| "truthy (PDict kvs) = (kvs \<noteq> [])"

text \<open>\<^verbatim>\<open>d.get(k)\<close> on a dictionary: \<^verbatim>\<open>None\<close> when the key is missing.\<close>

definition dict_get :: "(string \<times> py) list \<Rightarrow> string \<Rightarrow> py" where
  "dict_get d k = (case map_of d k of None \<Rightarrow> PNone | Some v \<Rightarrow> v)"

text \<open>\<^verbatim>\<open>d[k]\<close> on a dictionary raises \<^verbatim>\<open>KeyError\<close> when the key is missing.\<close>

definition dict_getitem :: "(string \<times> 'v) list \<Rightarrow> string \<Rightarrow> py_exception + 'v" where
  "dict_getitem d k =
     (case map_of d k of
        None \<Rightarrow> Inl (PyException ''KeyError'' ([CHR 0x27] @ k @ [CHR 0x27]))
      | Some v \<Rightarrow> Inr v)"

text \<open>\<^verbatim>\<open>x[k]\<close> with a string key \<^verbatim>\<open>k\<close>, on any object.\<close>

fun py_getitem :: "py \<Rightarrow> string \<Rightarrow> py_exception + py" where
  "py_getitem (PDict d) k = dict_getitem d k"
| "py_getitem _ k = Inl (PyException ''TypeError'' ''indices must be integers or object is not subscriptable'')"

fun py_len :: "py \<Rightarrow> py_exception + int" where
  "py_len (PStr s) = Inr (int (length s))"
| "py_len (PList xs) = Inr (int (length xs))"
| "py_len (PDict d) = Inr (int (length d))"
| "py_len _ = Inl (PyException ''TypeError'' ''object has no len()'')"

text \<open>\<^verbatim>\<open>str(n)\<close>, which is what \<^verbatim>\<open>f"{n}"\<close> inserts for an \<^verbatim>\<open>int\<close>.\<close>

fun str_nat :: "nat \<Rightarrow> string" where
  "str_nat n =
     (if n < 10 then [''0123456789'' ! n]
      else str_nat (n div 10) @ [''0123456789'' ! (n mod 10)])"

declare str_nat.simps [simp del]

definition str_int :: "int \<Rightarrow> string" where
  "str_int i = (if i < 0 then ''-'' @ str_nat (nat (- i)) else str_nat (nat i))"

text \<open>\<^verbatim>\<open>s.rstrip(chars)\<close>: drops from the end every character that occurs in \<^verbatim>\<open>chars\<close>.\<close>

definition rstrip :: "string \<Rightarrow> string \<Rightarrow> string" where
  "rstrip s chars = rev (dropWhile (\<lambda>c. c \<in> set chars) (rev s))"

text \<open>\<^verbatim>\<open>bool * int\<close>: \<^verbatim>\<open>True\<close> counts as 1 and \<^verbatim>\<open>False\<close> as 0.\<close>

definition bool_times :: "bool \<Rightarrow> int \<Rightarrow> int" where
  "bool_times b i = (if b then 1 else 0) * i"


section \<open>The schema (\<^verbatim>\<open>gemini_logic.py\<close>)\<close>

definition Mood :: "string list" where
  "Mood = [''Joyful'', ''Happy'', ''Calm'', ''Neutral'', ''Anxious'', ''Stressed'', ''Sad'',
           ''Angry'', ''Frustrated'']"

record Recommendation =
  title :: string
  reason :: string

record UserAnalysis =
  overall_mood :: string
  mood_summary :: string
  health_tip_1 :: string
  health_tip_2 :: string
  movie_recommendations :: "Recommendation list"
  book_recommendations :: "Recommendation list"

text \<open>
  Validation of a decoded JSON value against the two models, as their field declarations
  say: a field of type \<^verbatim>\<open>str\<close> is required and takes a JSON string only, \<^verbatim>\<open>overall_mood\<close>
  takes one of the nine literals only, and the two lists have \<^verbatim>\<open>default=[]\<close>, used when the
  key is absent. Keys that the model does not declare are ignored. \<^const>\<open>None\<close>
  is a validation error.
\<close>

definition str_field :: "(string \<times> py) list \<Rightarrow> string \<Rightarrow> string option" where
  "str_field d k = (case map_of d k of Some (PStr s) \<Rightarrow> Some s | _ \<Rightarrow> None)"

fun Recommendation_validate :: "py \<Rightarrow> Recommendation option" where
  "Recommendation_validate (PDict d) =
     Option.bind (str_field d ''title'') (\<lambda>t.
     Option.bind (str_field d ''reason'') (\<lambda>r.
       Some \<lparr>title = t, reason = r\<rparr>))"
| "Recommendation_validate _ = None"

definition list_field :: "(string \<times> py) list \<Rightarrow> string \<Rightarrow> Recommendation list option" where
  "list_field d k =
     (case map_of d k of
        None \<Rightarrow> Some []
      | Some (PList xs) \<Rightarrow> those (map Recommendation_validate xs)
      | Some _ \<Rightarrow> None)"

fun UserAnalysis_validate :: "py \<Rightarrow> UserAnalysis option" where
  "UserAnalysis_validate (PDict d) =
     Option.bind (str_field d ''overall_mood'') (\<lambda>m.
     if m \<in> set Mood then
       Option.bind (str_field d ''mood_summary'') (\<lambda>s.
       Option.bind (str_field d ''health_tip_1'') (\<lambda>t1.
       Option.bind (str_field d ''health_tip_2'') (\<lambda>t2.
       Option.bind (list_field d ''movie_recommendations'') (\<lambda>ms.
       Option.bind (list_field d ''book_recommendations'') (\<lambda>bs.
         Some \<lparr>overall_mood = m, mood_summary = s, health_tip_1 = t1, health_tip_2 = t2,
               movie_recommendations = ms, book_recommendations = bs\<rparr>)))))
     else None)"
| "UserAnalysis_validate _ = None"

text \<open>\<^verbatim>\<open>model_dump()\<close>: the model as a dictionary, one key per declared field, in order.\<close>

definition Recommendation_model_dump :: "Recommendation \<Rightarrow> py" where
  "Recommendation_model_dump r = PDict [(''title'', PStr (title r)), (''reason'', PStr (reason r))]"

definition model_dump :: "UserAnalysis \<Rightarrow> (string \<times> py) list" where
  "model_dump a =
     [(''overall_mood'', PStr (overall_mood a)),
      (''mood_summary'', PStr (mood_summary a)),
      (''health_tip_1'', PStr (health_tip_1 a)),
      (''health_tip_2'', PStr (health_tip_2 a)),
      (''movie_recommendations'', PList (map Recommendation_model_dump (movie_recommendations a))),
      (''book_recommendations'', PList (map Recommendation_model_dump (book_recommendations a)))]"


section \<open>The external model provider\<close>

record request =
  model :: string
  contents :: string
  system_instruction_of :: string
  response_mime_type :: string
  response_schema :: string

text \<open>
  What the program does to the outside world, in order: reading a secret, constructing the
  SDK client, the one kind of network call, and an error box shown to the user.
\<close>

datatype event =
    Secrets_lookup string
  | Client_init "string option"
  | Generate_content request
  | St_error py

text \<open>
  The SDK and the provider behind it, as one attempt meets them. \<^verbatim>\<open>genai.Client(api_key=k)\<close>
  raises or gives a client. A call of \<^verbatim>\<open>client.models.generate_content\<close> raises (transport
  failure, rejection by the provider), or the provider answers with a text; \<open>send\<close> gives that
  text decoded as JSON, \<^const>\<open>None\<close> when it is not JSON at all.
\<close>

record provider =
  genai_Client :: "string option \<Rightarrow> py_exception + unit"
  send :: "request \<Rightarrow> py_exception + py option"

record response =
  parsed :: "UserAnalysis option"

text \<open>
  With a pydantic class as \<^verbatim>\<open>response_schema\<close> the SDK validates the answer against the class
  and stores the instance in \<^verbatim>\<open>response.parsed\<close>; when the text does not validate,
  \<^verbatim>\<open>parsed\<close> stays \<^verbatim>\<open>None\<close>.
\<close>

definition generate_content :: "provider \<Rightarrow> request \<Rightarrow> py_exception + response" where
  "generate_content p req =
     (case send p req of
        Inl e \<Rightarrow> Inl e
      | Inr txt \<Rightarrow> Inr \<lparr>parsed = Option.bind txt UserAnalysis_validate\<rparr>)"

text \<open>\<^verbatim>\<open>response.parsed.model_dump()\<close>: an attribute of \<^verbatim>\<open>None\<close> raises.\<close>

definition parsed_model_dump :: "response \<Rightarrow> py_exception + (string \<times> py) list" where
  "parsed_model_dump r =
     (case parsed r of
        None \<Rightarrow> Inl (PyException ''AttributeError''
                    ([CHR 0x27] @ ''NoneType'' @ [CHR 0x27] @ '' object has no attribute ''
                     @ [CHR 0x27] @ ''model_dump'' @ [CHR 0x27]))
      | Some a \<Rightarrow> Inr (model_dump a))"


section \<open>\<^verbatim>\<open>analyze_user_input\<close> (\<^verbatim>\<open>gemini_logic.py\<close>)\<close>

definition recommendation_instructions :: "int \<Rightarrow> int \<Rightarrow> string" where
  "recommendation_instructions num_movies num_books =
     (let r0 = '''';
          r1 = (if num_movies > 0
                then r0 @ ''and suggest exactly '' @ str_int num_movies @ '' relevant movies,''
                else r0);
          r2 = (if num_books > 0
                then r1 @ ''and suggest exactly '' @ str_int num_books @ '' relevant books,''
                else r1)
      in rstrip r2 '', '')"

definition instruction_head :: string where
  "instruction_head =
     ''You are an empathetic wellness assistant. Your task is to analyze the user'' @ [CHR 0x27]
     @ ''s text, determine their mood, provide two helpful health and wellness tips tailored ''
     @ ''to that mood''"

definition instruction_tail :: string where
  "instruction_tail =
     ''You must return the entire response in a single JSON object that strictly adheres ''
     @ ''to the provided schema. If a recommendation type was not requested (count is 0), ''
     @ ''return an empty list for that field.''"

definition system_instruction :: "int \<Rightarrow> int \<Rightarrow> string" where
  "system_instruction num_movies num_books =
     instruction_head @ '' '' @ recommendation_instructions num_movies num_books @ ''. ''
     @ instruction_tail"

definition prompt :: "string \<Rightarrow> string" where
  "prompt user_text =
     ''Analyze my current situation and provide advice based on this: '' @ [CHR 0x27]
     @ user_text @ [CHR 0x27]"

definition build_request :: "string \<Rightarrow> int \<Rightarrow> int \<Rightarrow> request" where
  "build_request user_text num_movies num_books =
     \<lparr>model = ''gemini-2.5-flash'',
      contents = prompt user_text,
      system_instruction_of = system_instruction num_movies num_books,
      response_mime_type = ''application/json'',
      response_schema = ''UserAnalysis''\<rparr>"

text \<open>
  The function returns a dictionary, or an exception leaves it (\<^const>\<open>Inl\<close>); the second
  component lists the calls it made to the SDK.
\<close>

definition analyze_user_input ::
  "provider \<Rightarrow> string \<Rightarrow> int \<Rightarrow> int \<Rightarrow> string option
     \<Rightarrow> (py_exception + (string \<times> py) list) \<times> event list" where
  "analyze_user_input p user_text num_movies num_books api_key =
     (case genai_Client p api_key of
        Inl e \<Rightarrow>
          (Inr [(''error'', PStr (''API Client Error. Ensure GEMINI_API_KEY is set. Details: ''
                                  @ exc_str e))],
           [Client_init api_key])
      | Inr client \<Rightarrow>
          (let req = build_request user_text num_movies num_books in
           (case then_do (generate_content p req) parsed_model_dump of
              Inl e \<Rightarrow> Inr [(''error'', PStr (''Gemini API Call Failed. Details: '' @ exc_str e))]
            | Inr d \<Rightarrow> Inr [(''success'', PBool True), (''data'', PDict d)],
            [Client_init api_key, Generate_content req])))"

definition get_mood_history :: "py list" where
  "get_mood_history = []"


section \<open>The page (\<^verbatim>\<open>app.py\<close>)\<close>

record history_entry =
  timestamp :: nat
  mood :: py
  summary :: py
  movies :: int
  books :: int

record session_state =
  user_text :: string
  movie_toggle :: bool
  num_movies_slider :: int
  book_toggle :: bool
  num_books_slider :: int
  history :: "history_entry list"
  report_data :: py

text \<open>The state a session starts with, before the widgets are set.\<close>

definition initial_state :: session_state where
  "initial_state =
     \<lparr>user_text = '''', movie_toggle = False, num_movies_slider = 0, book_toggle = False,
      num_books_slider = 0, history = [], report_data = PNone\<rparr>"

text \<open>
  What one run of \<^verbatim>\<open>generate_report\<close> meets outside the session: the secrets store, the
  provider, and the reading of the wall clock. \<^verbatim>\<open>st.secrets\<close> loads the secrets file when it
  is first read: \<^const>\<open>Inr\<close> is the mapping it holds, and \<^const>\<open>Inl\<close> a store that cannot be
  loaded (no secrets file is found, or it cannot be parsed), with the exception that every
  read of it raises.
\<close>

record env =
  secrets :: "py_exception + (string \<times> string) list"
  the_provider :: provider
  now :: nat

record outcome =
  raised :: "py_exception option"
  state :: session_state
  trace :: "event list"

text \<open>
  \<^verbatim>\<open>st.secrets[k]\<close>: the exception of a store that cannot be loaded, \<^verbatim>\<open>KeyError\<close> when the
  store is loaded and does not hold \<^verbatim>\<open>k\<close>, the value otherwise.
\<close>

definition secrets_getitem ::
  "py_exception + (string \<times> string) list \<Rightarrow> string \<Rightarrow> py_exception + string" where
  "secrets_getitem store k =
     (case store of Inl e \<Rightarrow> Inl e | Inr d \<Rightarrow> dict_getitem d k)"

definition validation_message :: string where
  "validation_message =
     ''Please describe your current feelings or situation before generating a report.''"

definition api_key_message :: string where
  "api_key_message =
     [CHR 0xE2, CHR 0x9D, CHR 0x8C]
     @ '' API Key Error: GEMINI_API_KEY not found in Streamlit Secrets. Please configure your secrets.''"

text \<open>The dictionary literal appended to the history; its values are evaluated in order.\<close>

definition new_history_entry :: "nat \<Rightarrow> py \<Rightarrow> py_exception + history_entry" where
  "new_history_entry t data =
     then_do (py_getitem data ''overall_mood'') (\<lambda>m.
     then_do (py_getitem data ''mood_summary'') (\<lambda>sm.
     then_do (then_do (py_getitem data ''movie_recommendations'') py_len) (\<lambda>nm.
     then_do (then_do (py_getitem data ''book_recommendations'') py_len) (\<lambda>nb.
       Inr \<lparr>timestamp = t, mood = m, summary = sm, movies = nm, books = nb\<rparr>))))"

definition generate_report :: "env \<Rightarrow> session_state \<Rightarrow> outcome" where
  "generate_report ev s =
     (if \<not> truthy (PStr (user_text s)) then
        \<lparr>raised = None, state = s\<lparr>report_data := PNone\<rparr>,
         trace = [St_error (PStr validation_message)]\<rparr>
      else
        (case secrets_getitem (secrets ev) ''GEMINI_API_KEY'' of
           Inl e \<Rightarrow>
             (if exc_class e = ''KeyError'' then
                \<lparr>raised = None, state = s\<lparr>report_data := PNone\<rparr>,
                 trace = [Secrets_lookup ''GEMINI_API_KEY'', St_error (PStr api_key_message)]\<rparr>
              else
                \<lparr>raised = Some e, state = s, trace = [Secrets_lookup ''GEMINI_API_KEY'']\<rparr>)
         | Inr gemini_key \<Rightarrow>
             (let num_movies = bool_times (movie_toggle s) (num_movies_slider s);
                  num_books = bool_times (book_toggle s) (num_books_slider s)
              in
              (case analyze_user_input (the_provider ev) (user_text s) num_movies num_books
                      (Some gemini_key) of
                 (r, calls) \<Rightarrow>
                   (let tr = Secrets_lookup ''GEMINI_API_KEY'' # calls in
                    (case r of
                       Inl e \<Rightarrow> \<lparr>raised = Some e, state = s, trace = tr\<rparr>
                     | Inr result \<Rightarrow>
                         (if truthy (dict_get result ''error'') then
                            (case dict_getitem result ''error'' of
                               Inl e \<Rightarrow> \<lparr>raised = Some e, state = s, trace = tr\<rparr>
                             | Inr msg \<Rightarrow>
                                 \<lparr>raised = None, state = s\<lparr>report_data := PNone\<rparr>,
                                  trace = tr @ [St_error msg]\<rparr>)
                          else
                            (case dict_getitem result ''data'' of
                               Inl e \<Rightarrow> \<lparr>raised = Some e, state = s, trace = tr\<rparr>
                             | Inr data \<Rightarrow>
                                 (let s1 = s\<lparr>report_data := data\<rparr> in
                                  (case new_history_entry (now ev) data of
                                     Inl e \<Rightarrow> \<lparr>raised = Some e, state = s1, trace = tr\<rparr>
                                   | Inr entry \<Rightarrow>
                                       \<lparr>raised = None,
                                        state = s1\<lparr>history := history s1 @ [entry]\<rparr>,
                                        trace = tr\<rparr>))))))))))"

text \<open>
  One submission: the user sets the widgets, then presses the button. A sequence of
  submissions runs them one after the other on the same session; after a run that an
  exception has left, the session goes on from the state that run reached.
\<close>

record attempt =
  a_env :: env
  a_user_text :: string
  a_movie_toggle :: bool
  a_num_movies_slider :: int
  a_book_toggle :: bool
  a_num_books_slider :: int

definition set_widgets :: "attempt \<Rightarrow> session_state \<Rightarrow> session_state" where
  "set_widgets a s =
     s\<lparr>user_text := a_user_text a, movie_toggle := a_movie_toggle a,
       num_movies_slider := a_num_movies_slider a, book_toggle := a_book_toggle a,
       num_books_slider := a_num_books_slider a\<rparr>"

definition submit :: "attempt \<Rightarrow> session_state \<Rightarrow> outcome" where
  "submit a s = generate_report (a_env a) (set_widgets a s)"

fun run :: "attempt list \<Rightarrow> session_state \<Rightarrow> session_state" where
  "run [] s = s"
| "run (a # as) s = run as (state (submit a s))"

text \<open>The error boxes among the events.\<close>

fun shown_errors :: "event list \<Rightarrow> py list" where
  "shown_errors [] = []"
| "shown_errors (St_error m # es) = m # shown_errors es"
| "shown_errors (_ # es) = shown_errors es"

fun network_calls :: "event list \<Rightarrow> request list" where
  "network_calls [] = []"
| "network_calls (Generate_content r # es) = r # network_calls es"
| "network_calls (_ # es) = network_calls es"

fun credential_lookups :: "event list \<Rightarrow> string list" where
  "credential_lookups [] = []"
| "credential_lookups (Secrets_lookup k # es) = k # credential_lookups es"
| "credential_lookups (_ # es) = credential_lookups es"


subsection \<open>\<^verbatim>\<open>display_history\<close>\<close>

definition mood_score_map :: "(string \<times> int) list" where
  "mood_score_map =
     [(''Joyful'', 5), (''Happy'', 4), (''Calm'', 3), (''Neutral'', 3),
      (''Anxious'', 2), (''Stressed'', 2), (''Sad'', 1), (''Angry'', 1), (''Frustrated'', 1)]"

text \<open>
  \<^verbatim>\<open>Series.map(d)\<close> with a dictionary looks each value up in \<^verbatim>\<open>d\<close> and gives NaN
  (\<^const>\<open>None\<close> here) for a value that is not a key. All keys of the table are strings.
\<close>

fun score_of :: "(string \<times> int) list \<Rightarrow> py \<Rightarrow> int option" where
  "score_of d (PStr s) = map_of d s"
| "score_of d _ = None"

definition Series_map :: "(string \<times> int) list \<Rightarrow> py list \<Rightarrow> int option list" where
  "Series_map d col = map (score_of d) col"

datatype sidebar =
    Info string
  | Line_chart "(nat \<times> int option) list"

text \<open>
  The chart is drawn from the rows (time, score); the label \<^verbatim>\<open>day\<close> is a rendering of the
  time and is left as the time itself.
\<close>

definition display_history :: "session_state \<Rightarrow> sidebar" where
  "display_history s =
     (if history s = [] then Info ''Submit your first entry to see your mood history!''
      else Line_chart (zip (map timestamp (history s))
                           (Series_map mood_score_map (map mood (history s)))))"


section \<open>Names for what \<^verbatim>\<open>analyze_user_input\<close> returns\<close>

text \<open>
  The two error dictionaries of \<^verbatim>\<open>analyze_user_input\<close> with the detail left open, the
  message of the \<^verbatim>\<open>AttributeError\<close> that \<^verbatim>\<open>None.model_dump()\<close> raises, and the keys of a
  dumped analysis.
\<close>

definition none_type_message :: string where
  "none_type_message = [CHR 0x27] @ ''NoneType'' @ [CHR 0x27] @ '' object has no attribute ''
                     @ [CHR 0x27] @ ''model_dump'' @ [CHR 0x27]"

definition client_error :: "string \<Rightarrow> (string \<times> py) list" where
  "client_error d = [(''error'', PStr (''API Client Error. Ensure GEMINI_API_KEY is set. Details: '' @ d))]"

definition call_error :: "string \<Rightarrow> (string \<times> py) list" where
  "call_error d = [(''error'', PStr (''Gemini API Call Failed. Details: '' @ d))]"

definition field_names :: "string list" where
  "field_names =
     [''overall_mood'', ''mood_summary'', ''health_tip_1'', ''health_tip_2'',
      ''movie_recommendations'', ''book_recommendations'']"


section \<open>The outcome of a submission, as the specification names it\<close>

text \<open>
  The specification speaks of one discriminated outcome: a success carrying the analysis, or
  one of three kinds of error. \<open>spec_outcome\<close> says which one a submission ends in, read off
  the environment alone: the text, the secrets store and what the provider does. The
  functions of the program are compared with it below. The text counts as missing when it is
  the empty string, which is the test the page makes. The credentials count as missing when
  reading the secret raises \<^verbatim>\<open>KeyError\<close>, the one exception the page handles, or when the
  client constructor raises; any other exception of the read is no outcome of these four:
  it leaves \<^verbatim>\<open>generate_report\<close> (\<open>Uncaught\<close>).
\<close>

datatype error_kind = ValidationError | CredentialsError | ProviderError

datatype submission_outcome =
    is_Success: Success UserAnalysis
  | is_Failure: Failure error_kind
  | is_Uncaught: Uncaught py_exception

definition counts_request :: "session_state \<Rightarrow> request" where
  "counts_request s =
     build_request (user_text s) (bool_times (movie_toggle s) (num_movies_slider s))
       (bool_times (book_toggle s) (num_books_slider s))"

definition spec_outcome :: "env \<Rightarrow> session_state \<Rightarrow> submission_outcome" where
  "spec_outcome ev s =
     (if user_text s = [] then Failure ValidationError
      else
        (case secrets_getitem (secrets ev) ''GEMINI_API_KEY'' of
           Inl e \<Rightarrow> (if exc_class e = ''KeyError'' then Failure CredentialsError else Uncaught e)
         | Inr k \<Rightarrow>
             (case genai_Client (the_provider ev) (Some k) of
                Inl e \<Rightarrow> Failure CredentialsError
              | Inr c \<Rightarrow>
                  (case send (the_provider ev) (counts_request s) of
                     Inl e \<Rightarrow> Failure ProviderError
                   | Inr None \<Rightarrow> Failure ProviderError
                   | Inr (Some j) \<Rightarrow>
                       (case UserAnalysis_validate j of
                          None \<Rightarrow> Failure ProviderError
                        | Some a \<Rightarrow> Success a)))))"

definition entry_for :: "nat \<Rightarrow> UserAnalysis \<Rightarrow> history_entry" where
  "entry_for t a =
     \<lparr>timestamp = t, mood = PStr (overall_mood a), summary = PStr (mood_summary a),
      movies = int (length (movie_recommendations a)),
      books = int (length (book_recommendations a))\<rparr>"

definition attempt_outcome :: "attempt \<Rightarrow> submission_outcome" where
  "attempt_outcome a = spec_outcome (a_env a) (set_widgets a initial_state)"

definition entries_of :: "attempt \<Rightarrow> history_entry list" where
  "entries_of a =
     (case attempt_outcome a of
        Success ua \<Rightarrow> [entry_for (now (a_env a)) ua]
      | Failure k \<Rightarrow> []
      | Uncaught e \<Rightarrow> [])"

text \<open>
  The current report after a submission: the new analysis, nothing after an error, and the
  report the session had when the exception of the secrets store has left the run.
\<close>

definition report_of :: "attempt \<Rightarrow> session_state \<Rightarrow> py" where
  "report_of a s =
     (case attempt_outcome a of
        Success ua \<Rightarrow> PDict (model_dump ua)
      | Failure k \<Rightarrow> PNone
      | Uncaught e \<Rightarrow> report_data s)"


section \<open>Concrete providers, environments and sessions\<close>

definition happy_fields :: "(string \<times> py) list" where
  "happy_fields =
     [(''overall_mood'', PStr ''Happy''), (''mood_summary'', PStr ''A promotion at work.''),
      (''health_tip_1'', PStr ''Sleep well.''), (''health_tip_2'', PStr ''Go for a walk.'')]"

definition happy_analysis :: UserAnalysis where
  "happy_analysis =
     \<lparr>overall_mood = ''Happy'', mood_summary = ''A promotion at work.'',
      health_tip_1 = ''Sleep well.'', health_tip_2 = ''Go for a walk.'',
      movie_recommendations = [], book_recommendations = []\<rparr>"

definition answering_provider :: provider where
  "answering_provider =
     \<lparr>genai_Client = (\<lambda>k. Inr ()), send = (\<lambda>r. Inr (Some (PDict happy_fields)))\<rparr>"

definition unreachable_provider :: provider where
  "unreachable_provider =
     \<lparr>genai_Client = (\<lambda>k. Inr ()),
      send = (\<lambda>r. Inl (PyException ''ServerError'' ''503 UNAVAILABLE''))\<rparr>"


definition answering_env :: env where
  "answering_env =
     \<lparr>secrets = Inr [(''GEMINI_API_KEY'', ''k'')], the_provider = answering_provider,
      now = 7\<rparr>"

definition unreachable_env :: env where
  "unreachable_env =
     \<lparr>secrets = Inr [(''GEMINI_API_KEY'', ''k'')], the_provider = unreachable_provider,
      now = 8\<rparr>"


definition no_secrets_file :: py_exception where
  "no_secrets_file = PyException ''FileNotFoundError'' ''No secrets files found.''"

definition no_file_env :: env where
  "no_file_env = \<lparr>secrets = Inl no_secrets_file, the_provider = answering_provider, now = 10\<rparr>"

definition blank_text_state :: session_state where
  "blank_text_state = initial_state\<lparr>user_text := '' ''\<rparr>"

definition earlier_entry :: history_entry where
  "earlier_entry =
     \<lparr>timestamp = 3, mood = PStr ''Calm'', summary = PStr ''A quiet day.'', movies = 0, books = 0\<rparr>"

definition stale_state :: session_state where
  "stale_state =
     \<lparr>user_text = ''I am tired'', movie_toggle = True, num_movies_slider = 2,
      book_toggle = False, num_books_slider = 0, history = [earlier_entry],
      report_data = PDict (model_dump happy_analysis)\<rparr>"

definition bored_state :: session_state where
  "bored_state =
     initial_state\<lparr>history :=
       [\<lparr>timestamp = 3, mood = PStr ''Bored'', summary = PStr ''Nothing to do.'',
         movies = 0, books = 0\<rparr>]\<rparr>"

definition two_movies_state :: session_state where
  "two_movies_state =
     initial_state\<lparr>user_text := ''I just got a promotion'', movie_toggle := True,
                   num_movies_slider := 2\<rparr>"

definition failing_attempt :: attempt where
  "failing_attempt =
     \<lparr>a_env = unreachable_env, a_user_text = ''I am tired'', a_movie_toggle = False,
      a_num_movies_slider = 0, a_book_toggle = False, a_num_books_slider = 0\<rparr>"

definition successful_attempt :: attempt where
  "successful_attempt =
     \<lparr>a_env = answering_env, a_user_text = ''I just got a promotion'', a_movie_toggle = False,
      a_num_movies_slider = 0, a_book_toggle = False, a_num_books_slider = 0\<rparr>"

definition no_file_attempt :: attempt where
  "no_file_attempt =
     \<lparr>a_env = no_file_env, a_user_text = ''I am tired'', a_movie_toggle = False,
      a_num_movies_slider = 0, a_book_toggle = False, a_num_books_slider = 0\<rparr>"


section \<open>What the functions compute, case by case\<close>

lemma analyze_client_raises:
  "genai_Client p k = Inl e \<Longrightarrow>
   analyze_user_input p t m b k = (Inr (client_error (exc_str e)), [Client_init k])"
  by (simp add: analyze_user_input_def client_error_def)

lemma analyze_send_raises:
  "genai_Client p k = Inr c \<Longrightarrow> send p (build_request t m b) = Inl e \<Longrightarrow>
   analyze_user_input p t m b k =
     (Inr (call_error (exc_str e)), [Client_init k, Generate_content (build_request t m b)])"
  by (simp add: analyze_user_input_def call_error_def generate_content_def then_do_def)

lemma analyze_not_json:
  "genai_Client p k = Inr c \<Longrightarrow> send p (build_request t m b) = Inr None \<Longrightarrow>
   analyze_user_input p t m b k =
     (Inr (call_error none_type_message), [Client_init k, Generate_content (build_request t m b)])"
  by (simp add: analyze_user_input_def call_error_def generate_content_def then_do_def
      parsed_model_dump_def none_type_message_def)

lemma analyze_not_valid:
  "genai_Client p k = Inr c \<Longrightarrow> send p (build_request t m b) = Inr (Some j) \<Longrightarrow>
   UserAnalysis_validate j = None \<Longrightarrow>
   analyze_user_input p t m b k =
     (Inr (call_error none_type_message), [Client_init k, Generate_content (build_request t m b)])"
  by (simp add: analyze_user_input_def call_error_def generate_content_def then_do_def
      parsed_model_dump_def none_type_message_def)

lemma analyze_valid:
  "genai_Client p k = Inr c \<Longrightarrow> send p (build_request t m b) = Inr (Some j) \<Longrightarrow>
   UserAnalysis_validate j = Some a \<Longrightarrow>
   analyze_user_input p t m b k =
     (Inr [(''success'', PBool True), (''data'', PDict (model_dump a))],
      [Client_init k, Generate_content (build_request t m b)])"
  by (simp add: analyze_user_input_def generate_content_def then_do_def parsed_model_dump_def)

lemma new_history_entry_dump:
  "new_history_entry t (PDict (model_dump a)) = Inr (entry_for t a)"
  by (simp add: new_history_entry_def model_dump_def then_do_def dict_getitem_def entry_for_def)

lemma report_empty_text:
  "user_text s = [] \<Longrightarrow>
   generate_report ev s =
     \<lparr>raised = None, state = s\<lparr>report_data := PNone\<rparr>,
      trace = [St_error (PStr validation_message)]\<rparr>"
  by (simp add: generate_report_def)

lemma report_no_secret:
  "user_text s \<noteq> [] \<Longrightarrow> secrets_getitem (secrets ev) ''GEMINI_API_KEY'' = Inl e \<Longrightarrow>
   exc_class e = ''KeyError'' \<Longrightarrow>
   generate_report ev s =
     \<lparr>raised = None, state = s\<lparr>report_data := PNone\<rparr>,
      trace = [Secrets_lookup ''GEMINI_API_KEY'', St_error (PStr api_key_message)]\<rparr>"
  by (simp add: generate_report_def)

lemma report_lookup_uncaught:
  "user_text s \<noteq> [] \<Longrightarrow> secrets_getitem (secrets ev) ''GEMINI_API_KEY'' = Inl e \<Longrightarrow>
   exc_class e \<noteq> ''KeyError'' \<Longrightarrow>
   generate_report ev s =
     \<lparr>raised = Some e, state = s, trace = [Secrets_lookup ''GEMINI_API_KEY'']\<rparr>"
  by (simp add: generate_report_def)

lemma report_error_dict:
  "user_text s \<noteq> [] \<Longrightarrow> secrets_getitem (secrets ev) ''GEMINI_API_KEY'' = Inr k \<Longrightarrow>
   analyze_user_input (the_provider ev) (user_text s)
     (bool_times (movie_toggle s) (num_movies_slider s))
     (bool_times (book_toggle s) (num_books_slider s)) (Some k)
     = (Inr [(''error'', PStr (c # cs))], calls) \<Longrightarrow>
   generate_report ev s =
     \<lparr>raised = None, state = s\<lparr>report_data := PNone\<rparr>,
      trace = Secrets_lookup ''GEMINI_API_KEY'' # calls @ [St_error (PStr (c # cs))]\<rparr>"
  by (simp add: generate_report_def dict_getitem_def dict_get_def)

lemma report_success_dict:
  "user_text s \<noteq> [] \<Longrightarrow> secrets_getitem (secrets ev) ''GEMINI_API_KEY'' = Inr k \<Longrightarrow>
   analyze_user_input (the_provider ev) (user_text s)
     (bool_times (movie_toggle s) (num_movies_slider s))
     (bool_times (book_toggle s) (num_books_slider s)) (Some k)
     = (Inr [(''success'', PBool True), (''data'', PDict (model_dump a))], calls) \<Longrightarrow>
   generate_report ev s =
     \<lparr>raised = None,
      state = s\<lparr>report_data := PDict (model_dump a),
                history := history s @ [entry_for (now ev) a]\<rparr>,
      trace = Secrets_lookup ''GEMINI_API_KEY'' # calls\<rparr>"
  by (simp add: generate_report_def dict_getitem_def dict_get_def new_history_entry_dump)

lemma report_client_raises:
  assumes "user_text s \<noteq> []" and "secrets_getitem (secrets ev) ''GEMINI_API_KEY'' = Inr k"
    and "genai_Client (the_provider ev) (Some k) = Inl e"
  shows "generate_report ev s =
     \<lparr>raised = None, state = s\<lparr>report_data := PNone\<rparr>,
      trace = [Secrets_lookup ''GEMINI_API_KEY'', Client_init (Some k),
               St_error (PStr (''API Client Error. Ensure GEMINI_API_KEY is set. Details: ''
                               @ exc_str e))]\<rparr>"
  using report_error_dict [OF assms(1,2)] analyze_client_raises [OF assms(3)]
  by (simp add: client_error_def)

lemma report_call_fails:
  assumes "user_text s \<noteq> []" and "secrets_getitem (secrets ev) ''GEMINI_API_KEY'' = Inr k"
    and "analyze_user_input (the_provider ev) (user_text s)
           (bool_times (movie_toggle s) (num_movies_slider s))
           (bool_times (book_toggle s) (num_books_slider s)) (Some k)
         = (Inr (call_error d), [Client_init (Some k), Generate_content (counts_request s)])"
  shows "generate_report ev s =
     \<lparr>raised = None, state = s\<lparr>report_data := PNone\<rparr>,
      trace = [Secrets_lookup ''GEMINI_API_KEY'', Client_init (Some k),
               Generate_content (counts_request s),
               St_error (PStr (''Gemini API Call Failed. Details: '' @ d))]\<rparr>"
  using report_error_dict [OF assms(1,2)] assms(3)
  by (simp add: call_error_def)

lemma failure_shape:
  assumes "spec_outcome ev s = Failure kind"
  shows "\<exists>calls msg. generate_report ev s =
           \<lparr>raised = None, state = s\<lparr>report_data := PNone\<rparr>,
            trace = calls @ [St_error (PStr msg)]\<rparr>
         \<and> shown_errors calls = []"
proof (cases "user_text s = []")
  case True
  have "generate_report ev s =
          \<lparr>raised = None, state = s\<lparr>report_data := PNone\<rparr>,
           trace = [] @ [St_error (PStr validation_message)]\<rparr> \<and> shown_errors [] = []"
    using report_empty_text [OF True] by simp
  then show ?thesis by blast
next
  case nonempty: False
  show ?thesis
  proof (cases "secrets_getitem (secrets ev) ''GEMINI_API_KEY''")
    case (Inl e)
    with assms nonempty have "exc_class e = ''KeyError''"
      by (auto simp: spec_outcome_def split: if_splits)
    with nonempty Inl have "generate_report ev s =
          \<lparr>raised = None, state = s\<lparr>report_data := PNone\<rparr>,
           trace = [Secrets_lookup ''GEMINI_API_KEY''] @ [St_error (PStr api_key_message)]\<rparr>
          \<and> shown_errors [Secrets_lookup ''GEMINI_API_KEY''] = []"
      using report_no_secret [of s ev e] by simp
    then show ?thesis by blast
  next
    case key: (Inr k)
    show ?thesis
    proof (cases "genai_Client (the_provider ev) (Some k)")
      case (Inl e)
      have "generate_report ev s =
          \<lparr>raised = None, state = s\<lparr>report_data := PNone\<rparr>,
           trace = [Secrets_lookup ''GEMINI_API_KEY'', Client_init (Some k)]
                   @ [St_error (PStr (''API Client Error. Ensure GEMINI_API_KEY is set. Details: ''
                               @ exc_str e))]\<rparr>
          \<and> shown_errors [Secrets_lookup ''GEMINI_API_KEY'', Client_init (Some k)] = []"
        using report_client_raises [OF nonempty key Inl] by simp
      then show ?thesis by blast
    next
      case (Inr c)
      have "\<exists>d. analyze_user_input (the_provider ev) (user_text s)
           (bool_times (movie_toggle s) (num_movies_slider s))
           (bool_times (book_toggle s) (num_books_slider s)) (Some k)
         = (Inr (call_error d), [Client_init (Some k), Generate_content (counts_request s)])"
        using assms nonempty key Inr
          analyze_send_raises [OF Inr] analyze_not_json [OF Inr] analyze_not_valid [OF Inr]
        by (auto simp: spec_outcome_def counts_request_def split: sum.splits option.splits)
      then obtain d where "analyze_user_input (the_provider ev) (user_text s)
           (bool_times (movie_toggle s) (num_movies_slider s))
           (bool_times (book_toggle s) (num_books_slider s)) (Some k)
         = (Inr (call_error d), [Client_init (Some k), Generate_content (counts_request s)])"
        by blast
      from report_call_fails [OF nonempty key this]
      have "generate_report ev s =
          \<lparr>raised = None, state = s\<lparr>report_data := PNone\<rparr>,
           trace = [Secrets_lookup ''GEMINI_API_KEY'', Client_init (Some k),
                    Generate_content (counts_request s)]
                   @ [St_error (PStr (''Gemini API Call Failed. Details: '' @ d))]\<rparr>
          \<and> shown_errors [Secrets_lookup ''GEMINI_API_KEY'', Client_init (Some k),
                    Generate_content (counts_request s)] = []"
        by simp
      then show ?thesis by blast
    qed
  qed
qed

lemma success_shape:
  assumes "spec_outcome ev s = Success a"
  shows "\<exists>k. generate_report ev s =
           \<lparr>raised = None,
            state = s\<lparr>report_data := PDict (model_dump a),
                      history := history s @ [entry_for (now ev) a]\<rparr>,
            trace = [Secrets_lookup ''GEMINI_API_KEY'', Client_init (Some k),
                     Generate_content (counts_request s)]\<rparr>"
proof -
  from assms have nonempty: "user_text s \<noteq> []"
    by (auto simp: spec_outcome_def split: if_splits)
  from assms nonempty obtain k where k: "secrets_getitem (secrets ev) ''GEMINI_API_KEY'' = Inr k"
    by (auto simp: spec_outcome_def split: sum.splits if_splits)
  from assms nonempty k obtain c where c: "genai_Client (the_provider ev) (Some k) = Inr c"
    by (auto simp: spec_outcome_def split: sum.splits)
  from assms nonempty k c obtain j where
    j: "send (the_provider ev) (counts_request s) = Inr (Some j)" and
    v: "UserAnalysis_validate j = Some a"
    by (auto simp: spec_outcome_def split: sum.splits option.splits)
  from report_success_dict [OF nonempty k]
    analyze_valid [OF c j [unfolded counts_request_def] v]
  show ?thesis by (simp add: counts_request_def)
qed

lemma uncaught_shape:
  assumes "spec_outcome ev s = Uncaught e"
  shows "generate_report ev s =
           \<lparr>raised = Some e, state = s, trace = [Secrets_lookup ''GEMINI_API_KEY'']\<rparr>"
proof -
  from assms have nonempty: "user_text s \<noteq> []"
    by (auto simp: spec_outcome_def split: if_splits)
  from assms nonempty have "secrets_getitem (secrets ev) ''GEMINI_API_KEY'' = Inl e
      \<and> exc_class e \<noteq> ''KeyError''"
    by (auto simp: spec_outcome_def split: sum.splits option.splits if_splits)
  with nonempty show ?thesis by (simp add: report_lookup_uncaught)
qed

lemma shown_errors_append: "shown_errors (xs @ ys) = shown_errors xs @ shown_errors ys"
  by (induction xs rule: shown_errors.induct) simp_all

lemma counts_request_widgets:
  "counts_request (set_widgets a s) =
     build_request (a_user_text a) (bool_times (a_movie_toggle a) (a_num_movies_slider a))
       (bool_times (a_book_toggle a) (a_num_books_slider a))"
  by (simp add: counts_request_def set_widgets_def)

lemma spec_outcome_widgets:
  "spec_outcome ev (set_widgets a s) = spec_outcome ev (set_widgets a s')"
  unfolding spec_outcome_def counts_request_widgets by (simp add: set_widgets_def)

lemma submit_outcome:
  "spec_outcome (a_env a) (set_widgets a s) = attempt_outcome a"
  using spec_outcome_widgets [of "a_env a" a s initial_state] by (simp add: attempt_outcome_def)

lemma submit_history: "history (state (submit a s)) = history s @ entries_of a"
proof (cases "attempt_outcome a")
  case (Success ua)
  then have "spec_outcome (a_env a) (set_widgets a s) = Success ua"
    by (simp add: submit_outcome)
  from success_shape [OF this] Success show ?thesis
    by (auto simp: submit_def entries_of_def set_widgets_def)
next
  case (Failure k)
  then have "spec_outcome (a_env a) (set_widgets a s) = Failure k"
    by (simp add: submit_outcome)
  from failure_shape [OF this] Failure show ?thesis
    by (auto simp: submit_def entries_of_def set_widgets_def)
next
  case (Uncaught e)
  then have "spec_outcome (a_env a) (set_widgets a s) = Uncaught e"
    by (simp add: submit_outcome)
  from uncaught_shape [OF this] Uncaught show ?thesis
    by (auto simp: submit_def entries_of_def set_widgets_def)
qed

lemma submit_report: "report_data (state (submit a s)) = report_of a s"
proof (cases "attempt_outcome a")
  case (Success ua)
  then have "spec_outcome (a_env a) (set_widgets a s) = Success ua"
    by (simp add: submit_outcome)
  from success_shape [OF this] Success show ?thesis
    by (auto simp: submit_def report_of_def)
next
  case (Failure k)
  then have "spec_outcome (a_env a) (set_widgets a s) = Failure k"
    by (simp add: submit_outcome)
  from failure_shape [OF this] Failure show ?thesis
    by (auto simp: submit_def report_of_def)
next
  case (Uncaught e)
  then have "spec_outcome (a_env a) (set_widgets a s) = Uncaught e"
    by (simp add: submit_outcome)
  from uncaught_shape [OF this] Uncaught show ?thesis
    by (auto simp: submit_def report_of_def set_widgets_def)
qed

lemma submit_success:
  "(raised (submit a s) = None \<and> shown_errors (trace (submit a s)) = [])
     = is_Success (attempt_outcome a)"
proof (cases "attempt_outcome a")
  case (Success ua)
  then have "spec_outcome (a_env a) (set_widgets a s) = Success ua"
    by (simp add: submit_outcome)
  from success_shape [OF this] Success show ?thesis
    by (auto simp: submit_def)
next
  case (Failure k)
  then have "spec_outcome (a_env a) (set_widgets a s) = Failure k"
    by (simp add: submit_outcome)
  from failure_shape [OF this] Failure show ?thesis
    by (auto simp: submit_def shown_errors_append)
next
  case (Uncaught e)
  then have "spec_outcome (a_env a) (set_widgets a s) = Uncaught e"
    by (simp add: submit_outcome)
  from uncaught_shape [OF this] Uncaught show ?thesis
    by (auto simp: submit_def)
qed

lemma submit_errors:
  "(shown_errors (trace (submit a s)) \<noteq> []) = is_Failure (attempt_outcome a)"
proof (cases "attempt_outcome a")
  case (Success ua)
  then have "spec_outcome (a_env a) (set_widgets a s) = Success ua"
    by (simp add: submit_outcome)
  from success_shape [OF this] Success show ?thesis
    by (auto simp: submit_def)
next
  case (Failure k)
  then have "spec_outcome (a_env a) (set_widgets a s) = Failure k"
    by (simp add: submit_outcome)
  from failure_shape [OF this] Failure show ?thesis
    by (auto simp: submit_def shown_errors_append)
next
  case (Uncaught e)
  then have "spec_outcome (a_env a) (set_widgets a s) = Uncaught e"
    by (simp add: submit_outcome)
  from uncaught_shape [OF this] Uncaught show ?thesis
    by (auto simp: submit_def)
qed

lemma run_history: "history (run as s) = history s @ concat (map entries_of as)"
  by (induction as arbitrary: s) (simp_all add: submit_history)

lemma entries_of_length:
  "length (entries_of a) = (if is_Success (attempt_outcome a) then 1 else 0)"
  by (simp add: entries_of_def split: submission_outcome.splits)

lemma concat_entries_length:
  "length (concat (map entries_of as)) = length (filter (\<lambda>a. is_Success (attempt_outcome a)) as)"
  by (induction as) (simp_all add: entries_of_length)

lemma validate_happy: "UserAnalysis_validate (PDict happy_fields) = Some happy_analysis"
  by (simp add: happy_fields_def happy_analysis_def str_field_def list_field_def Mood_def)

lemma outcome_blank: "spec_outcome answering_env blank_text_state = Success happy_analysis"
  using validate_happy
  by (simp add: spec_outcome_def answering_env_def blank_text_state_def initial_state_def
      answering_provider_def secrets_getitem_def dict_getitem_def
      del: UserAnalysis_validate.simps)



lemma network_calls_append: "network_calls (xs @ ys) = network_calls xs @ network_calls ys"
  by (induction xs rule: network_calls.induct) simp_all

lemma generate_report_raised:
  "raised (generate_report ev s) =
     (if user_text s = [] then None
      else
        (case secrets_getitem (secrets ev) ''GEMINI_API_KEY'' of
           Inl e \<Rightarrow> (if exc_class e = ''KeyError'' then None else Some e)
         | Inr k \<Rightarrow> None))"
proof (cases "spec_outcome ev s")
  case (Success a)
  from success_shape [OF this] Success show ?thesis
    by (auto simp: spec_outcome_def split: if_splits sum.splits)
next
  case (Failure k)
  from failure_shape [OF this] Failure show ?thesis
    by (auto simp: spec_outcome_def split: if_splits sum.splits)
next
  case (Uncaught e)
  from uncaught_shape [OF this] Uncaught show ?thesis
    by (auto simp: spec_outcome_def split: if_splits sum.splits option.splits)
qed

lemma analyze_shapes:
  "(\<exists>c cs. fst (analyze_user_input p t m b k) = Inr [(''error'', PStr (c # cs))])
   \<or> (\<exists>a. fst (analyze_user_input p t m b k)
            = Inr [(''success'', PBool True), (''data'', PDict (model_dump a))])"
proof (cases "genai_Client p k")
  case (Inl e)
  from analyze_client_raises [OF this] show ?thesis by (simp add: client_error_def)
next
  case (Inr c)
  show ?thesis
  proof (cases "send p (build_request t m b)")
    case (Inl e)
    from analyze_send_raises [OF Inr this] show ?thesis by (simp add: call_error_def)
  next
    case sent: (Inr payload)
    show ?thesis
    proof (cases payload)
      case None
      with sent analyze_not_json [OF Inr] show ?thesis by (simp add: call_error_def)
    next
      case (Some j)
      show ?thesis
      proof (cases "UserAnalysis_validate j")
        case None
        with sent Some analyze_not_valid [OF Inr] show ?thesis by (simp add: call_error_def)
      next
        case valid: (Some a)
        with sent Some analyze_valid [OF Inr] show ?thesis by auto
      qed
    qed
  qed
qed

lemma rstrip_movies: "rstrip (xs @ '' relevant movies,'') '', '' = xs @ '' relevant movies''"
  by (simp add: rstrip_def)

lemma rstrip_books: "rstrip (xs @ '' relevant books,'') '', '' = xs @ '' relevant books''"
  by (simp add: rstrip_def)

lemma instructions_none:
  "m \<le> 0 \<Longrightarrow> b \<le> 0 \<Longrightarrow> recommendation_instructions m b = ''''"
  by (simp add: recommendation_instructions_def rstrip_def)

lemma instructions_movies:
  "0 < m \<Longrightarrow> b \<le> 0 \<Longrightarrow>
   recommendation_instructions m b = ''and suggest exactly '' @ str_int m @ '' relevant movies''"
  using rstrip_movies [of "''and suggest exactly '' @ str_int m"]
  by (simp add: recommendation_instructions_def)

lemma instructions_books:
  "m \<le> 0 \<Longrightarrow> 0 < b \<Longrightarrow>
   recommendation_instructions m b = ''and suggest exactly '' @ str_int b @ '' relevant books''"
  using rstrip_books [of "''and suggest exactly '' @ str_int b"]
  by (simp add: recommendation_instructions_def)

lemma instructions_both:
  "0 < m \<Longrightarrow> 0 < b \<Longrightarrow>
   recommendation_instructions m b =
     ''and suggest exactly '' @ str_int m @ '' relevant movies,and suggest exactly ''
     @ str_int b @ '' relevant books''"
  using rstrip_books [of "''and suggest exactly '' @ str_int m
                          @ '' relevant movies,and suggest exactly '' @ str_int b"]
  by (simp add: recommendation_instructions_def)

lemma score_outside_enum: "m \<notin> set Mood \<Longrightarrow> score_of mood_score_map (PStr m) = None"
proof -
  assume "m \<notin> set Mood"
  moreover have "fst ` set mood_score_map = set Mood"
    by (simp add: mood_score_map_def Mood_def)
  ultimately show ?thesis by (simp add: map_of_eq_None_iff)
qed

lemma str_field_Some: "str_field d k = Some s \<Longrightarrow> map_of d k = Some (PStr s)"
  by (auto simp: str_field_def split: option.splits py.splits)

lemma validate_is_dict: "UserAnalysis_validate v = Some a \<Longrightarrow> \<exists>j. v = PDict j"
  by (cases v) simp_all

lemma validate_fields:
  assumes "UserAnalysis_validate (PDict j) = Some a"
  shows "map_of j ''overall_mood'' = Some (PStr (overall_mood a)) \<and> overall_mood a \<in> set Mood
   \<and> map_of j ''mood_summary'' = Some (PStr (mood_summary a))
   \<and> map_of j ''health_tip_1'' = Some (PStr (health_tip_1 a))
   \<and> map_of j ''health_tip_2'' = Some (PStr (health_tip_2 a))
   \<and> list_field j ''movie_recommendations'' = Some (movie_recommendations a)
   \<and> list_field j ''book_recommendations'' = Some (book_recommendations a)"
  using assms
  by (auto simp: Option.bind_eq_Some_conv dest!: str_field_Some split: if_splits)

lemma model_dump_keys: "map fst (model_dump a) = field_names"
  by (simp add: model_dump_def field_names_def)

lemma outcome_two_movies:
  "spec_outcome answering_env two_movies_state = Success happy_analysis"
  using validate_happy
  by (simp add: spec_outcome_def answering_env_def two_movies_state_def initial_state_def
      answering_provider_def secrets_getitem_def dict_getitem_def
      del: UserAnalysis_validate.simps)

lemma outcome_failing_attempt: "attempt_outcome failing_attempt = Failure ProviderError"
  by (simp add: attempt_outcome_def spec_outcome_def failing_attempt_def set_widgets_def
      secrets_getitem_def dict_getitem_def
      unreachable_env_def unreachable_provider_def initial_state_def)

lemma outcome_successful_attempt:
  "attempt_outcome successful_attempt = Success happy_analysis"
  using validate_happy
  by (simp add: attempt_outcome_def spec_outcome_def successful_attempt_def set_widgets_def
      secrets_getitem_def dict_getitem_def
      answering_env_def answering_provider_def initial_state_def
      del: UserAnalysis_validate.simps)

lemma outcome_no_file_attempt: "attempt_outcome no_file_attempt = Uncaught no_secrets_file"
  by (simp add: attempt_outcome_def spec_outcome_def no_file_attempt_def set_widgets_def
      no_file_env_def secrets_getitem_def no_secrets_file_def initial_state_def)

lemma outcome_mood_in_enum:
  "spec_outcome ev s = Success a \<Longrightarrow> overall_mood a \<in> set Mood"
proof -
  assume "spec_outcome ev s = Success a"
  then obtain v where v: "UserAnalysis_validate v = Some a"
    by (auto simp: spec_outcome_def split: if_splits option.splits sum.splits)
  from validate_is_dict [OF v] obtain j where "v = PDict j" by blast
  with v validate_fields [of j a] show ?thesis by simp
qed

lemma entries_of_mood:
  assumes "e \<in> set (entries_of a)"
  shows "\<exists>m. mood e = PStr m \<and> m \<in> set Mood"
proof (cases "attempt_outcome a")
  case (Success ua)
  then have "overall_mood ua \<in> set Mood"
    using outcome_mood_in_enum [of "a_env a" "set_widgets a initial_state" ua]
    by (simp add: attempt_outcome_def)
  with assms Success show ?thesis by (simp add: entries_of_def entry_for_def)
next
  case (Failure k)
  with assms show ?thesis by (simp add: entries_of_def)
next
  case (Uncaught x)
  with assms show ?thesis by (simp add: entries_of_def)
qed

lemma entries_failing_attempt: "entries_of failing_attempt = []"
  by (simp add: entries_of_def outcome_failing_attempt)

lemma entries_no_file_attempt: "entries_of no_file_attempt = []"
  by (simp add: entries_of_def outcome_no_file_attempt)

lemma entries_successful_attempt: "entries_of successful_attempt = [entry_for 7 happy_analysis]"
  by (simp add: entries_of_def outcome_successful_attempt)
     (simp add: successful_attempt_def answering_env_def)

lemma report_successful_attempt:
  "report_of successful_attempt s = PDict (model_dump happy_analysis)"
  by (simp add: report_of_def outcome_successful_attempt)

lemma report_failing_attempt: "report_of failing_attempt s = PNone"
  by (simp add: report_of_def outcome_failing_attempt)


section \<open>The properties stated of the program\<close>

subsection \<open>C1: the composed instruction\<close>

text \<open>
  C1 at the counts 0 and 0: the instruction holds no recommendation clause and no comma
  from one, but the space that the template puts before the clause stays in front of the
  full stop: the text reads \<^verbatim>\<open>to that mood . You must\<close>. The claim asks for no stray
  separator there. The other three cases of the claim are the lemmas
  \<open>instructions_movies\<close>, \<open>instructions_books\<close> and \<open>instructions_both\<close>.
\<close>

theorem instruction_without_counts:
  "system_instruction 0 0 =
     ''You are an empathetic wellness assistant. Your task is to analyze the user's text, determine their mood, provide two helpful health and wellness tips tailored to that mood . You must return the entire response in a single JSON object that strictly adheres to the provided schema. If a recommendation type was not requested (count is 0), return an empty list for that field.''"
  by (simp add: system_instruction_def instruction_head_def instruction_tail_def
      instructions_none)


subsection \<open>C2: a text that is empty or only whitespace is rejected first\<close>

text \<open>
  C2, as stated, fails for a text of whitespace. \<^verbatim>\<open>generate_report\<close> tests \<^verbatim>\<open>not user_text\<close>,
  which holds of the empty string only. With the text \<^verbatim>\<open>" "\<close>, a stored secret and a
  provider that answers, no error is shown, the secret is looked up, the provider is called,
  the report is set and the history gets its first entry.
\<close>

theorem whitespace_text_not_rejected:
  "user_text blank_text_state = '' ''
   \<and> shown_errors (trace (generate_report answering_env blank_text_state)) = []
   \<and> credential_lookups (trace (generate_report answering_env blank_text_state))
       = [''GEMINI_API_KEY'']
   \<and> network_calls (trace (generate_report answering_env blank_text_state))
       = [counts_request blank_text_state]
   \<and> report_data (state (generate_report answering_env blank_text_state))
       = PDict (model_dump happy_analysis)
   \<and> length (history (state (generate_report answering_env blank_text_state))) = 1"
  using success_shape [OF outcome_blank]
  by (auto simp: blank_text_state_def initial_state_def)

text \<open>
  C2, amended: when the text is the empty string, \<^verbatim>\<open>generate_report\<close> does nothing but show
  the validation message: no exception, no lookup of the secret, no call to the provider;
  the report is cleared and the history is the one it was.
\<close>

theorem empty_text_rejected_first:
  assumes "user_text s = []"
  shows "raised (generate_report ev s) = None
   \<and> trace (generate_report ev s) = [St_error (PStr validation_message)]
   \<and> credential_lookups (trace (generate_report ev s)) = []
   \<and> network_calls (trace (generate_report ev s)) = []
   \<and> report_data (state (generate_report ev s)) = PNone
   \<and> history (state (generate_report ev s)) = history s"
  using report_empty_text [OF assms] by simp

text \<open>C2, an instance of the amended statement: the first submission of a session, left empty.\<close>

theorem empty_text_rejected_first_witness:
  "user_text initial_state = []
   \<and> trace (generate_report answering_env initial_state) = [St_error (PStr validation_message)]
   \<and> report_data (state (generate_report answering_env initial_state)) = PNone
   \<and> history (state (generate_report answering_env initial_state)) = []"
  using empty_text_rejected_first [of initial_state answering_env]
  by (simp add: initial_state_def)


subsection \<open>C3: a typed outcome, never an exception\<close>

text \<open>
  C3: \<^verbatim>\<open>analyze_user_input\<close> returns a dictionary on every input, and which one is settled
  by the provider alone: an exception of the client constructor or of the call, an answer
  that is not JSON and an answer that does not validate against the schema each become an
  \<^verbatim>\<open>error\<close> dictionary with a message; only a validated answer becomes a success. No
  exception of the provider leaves \<^verbatim>\<open>generate_report\<close> either: the one exception that can
  leave it is that of a read of the secrets store, when it is not a \<^verbatim>\<open>KeyError\<close>.
\<close>

theorem analyze_user_input_typed_outcome:
  "fst (analyze_user_input p t m b k) =
     Inr (case genai_Client p k of
            Inl e \<Rightarrow> client_error (exc_str e)
          | Inr c \<Rightarrow>
              (case send p (build_request t m b) of
                 Inl e \<Rightarrow> call_error (exc_str e)
               | Inr None \<Rightarrow> call_error none_type_message
               | Inr (Some j) \<Rightarrow>
                   (case UserAnalysis_validate j of
                      None \<Rightarrow> call_error none_type_message
                    | Some a \<Rightarrow> [(''success'', PBool True), (''data'', PDict (model_dump a))])))
   \<and> raised (generate_report ev s) =
       (if user_text s = [] then None
        else
          (case secrets_getitem (secrets ev) ''GEMINI_API_KEY'' of
             Inl e \<Rightarrow> (if exc_class e = ''KeyError'' then None else Some e)
           | Inr k \<Rightarrow> None))"
proof -
  have "fst (analyze_user_input p t m b k) =
     Inr (case genai_Client p k of
            Inl e \<Rightarrow> client_error (exc_str e)
          | Inr c \<Rightarrow>
              (case send p (build_request t m b) of
                 Inl e \<Rightarrow> call_error (exc_str e)
               | Inr None \<Rightarrow> call_error none_type_message
               | Inr (Some j) \<Rightarrow>
                   (case UserAnalysis_validate j of
                      None \<Rightarrow> call_error none_type_message
                    | Some a \<Rightarrow> [(''success'', PBool True), (''data'', PDict (model_dump a))])))"
    by (simp add: analyze_client_raises analyze_send_raises analyze_not_json analyze_not_valid
        analyze_valid split: sum.splits option.splits)
  then show ?thesis using generate_report_raised [of ev s] by simp
qed


subsection \<open>C4: one history entry for each success, none for a failure\<close>

text \<open>
  C4: after any sequence of submissions the history is the old history followed by one
  entry for each submission that succeeds, in the order of submission, and nothing for one
  that fails. The entry of a success holds the reading of the clock, the mood, the summary
  and the lengths of the two lists (\<open>entry_for\<close>); a success makes its analysis the current
  report; the run of a submission ends without exception and without error box exactly when
  the submission succeeds, and with an error box exactly when it ends in an error.
\<close>

theorem history_gains_one_entry_per_success:
  "history (run as s) = history s @ concat (map entries_of as)
   \<and> length (history (run as s))
       = length (history s) + length (filter (\<lambda>a. is_Success (attempt_outcome a)) as)
   \<and> history (state (submit a s)) = history s @ entries_of a
   \<and> report_data (state (submit a s)) = report_of a s
   \<and> (raised (submit a s) = None \<and> shown_errors (trace (submit a s)) = [])
       = is_Success (attempt_outcome a)
   \<and> (shown_errors (trace (submit a s)) \<noteq> []) = is_Failure (attempt_outcome a)"
  by (simp add: run_history submit_history submit_report submit_success submit_errors
      concat_entries_length)

text \<open>
  C4, an instance: a failure, a success, a store that cannot be read and a failure; and a
  failure on a session with a report.
\<close>

theorem history_gains_one_entry_per_success_witness:
  "history (run [failing_attempt, successful_attempt, no_file_attempt, failing_attempt]
             initial_state)
     = [entry_for 7 happy_analysis]
   \<and> report_data (state (submit successful_attempt initial_state))
       = PDict (model_dump happy_analysis)
   \<and> report_data (state (submit failing_attempt stale_state)) = PNone"
  using history_gains_one_entry_per_success
          [of "[failing_attempt, successful_attempt, no_file_attempt, failing_attempt]"
              initial_state successful_attempt]
        history_gains_one_entry_per_success [of "[]" stale_state failing_attempt]
  by (simp add: entries_failing_attempt entries_successful_attempt entries_no_file_attempt
      report_successful_attempt report_failing_attempt initial_state_def)


subsection \<open>C5: an error clears the report and leaves the history\<close>




subsection \<open>C6: no credentials, no network call\<close>





subsection \<open>C7: the scores of the nine moods\<close>

text \<open>
  C7: the table gives each of the nine mood labels its score, 5, 4, 3, 3, 2, 2, 1, 1, 1 in
  the order of the enumeration, and its keys are exactly the nine labels.
\<close>

theorem mood_score_reference_scale:
  "map (score_of mood_score_map) (map PStr Mood)
     = [Some 5, Some 4, Some 3, Some 3, Some 2, Some 2, Some 1, Some 1, Some 1]
   \<and> map fst mood_score_map = Mood
   \<and> length Mood = 9 \<and> distinct Mood"
  by (simp add: mood_score_map_def Mood_def)


subsection \<open>C8: one call, and a full result or an error\<close>

text \<open>
  C8, as stated, fails where a list is left out of the answer although a positive count
  was asked for. With two movies requested and an answer that has the mood, the summary
  and the two tips but no key \<^verbatim>\<open>movie_recommendations\<close>, the outcome is a success whose movie
  list is the default \<^verbatim>\<open>[]\<close>, and the page shows it as the current report.
\<close>

theorem omitted_list_defaulted_despite_count:
  "bool_times (movie_toggle two_movies_state) (num_movies_slider two_movies_state) = 2
   \<and> map_of happy_fields ''movie_recommendations'' = None
   \<and> fst (analyze_user_input answering_provider ''I just got a promotion'' 2 0 (Some ''k''))
       = Inr [(''success'', PBool True), (''data'', PDict (model_dump happy_analysis))]
   \<and> map_of (model_dump happy_analysis) ''movie_recommendations'' = Some (PList [])
   \<and> shown_errors (trace (generate_report answering_env two_movies_state)) = []
   \<and> report_data (state (generate_report answering_env two_movies_state))
       = PDict (model_dump happy_analysis)"
proof -
  have "analyze_user_input answering_provider ''I just got a promotion'' 2 0 (Some ''k'')
        = (Inr [(''success'', PBool True), (''data'', PDict (model_dump happy_analysis))],
           [Client_init (Some ''k''),
            Generate_content (build_request ''I just got a promotion'' 2 0)])"
    by (rule analyze_valid [where c = "()" and j = "PDict happy_fields"])
       (simp_all add: answering_provider_def validate_happy del: UserAnalysis_validate.simps)
  moreover have "map_of (model_dump happy_analysis) ''movie_recommendations'' = Some (PList [])"
    by (simp add: model_dump_def happy_analysis_def)
  moreover have "map_of happy_fields ''movie_recommendations'' = None"
    by (simp add: happy_fields_def)
  moreover have "bool_times (movie_toggle two_movies_state) (num_movies_slider two_movies_state) = 2"
    by (simp add: two_movies_state_def initial_state_def bool_times_def)
  moreover from success_shape [OF outcome_two_movies]
  have "shown_errors (trace (generate_report answering_env two_movies_state)) = []
        \<and> report_data (state (generate_report answering_env two_movies_state))
            = PDict (model_dump happy_analysis)"
    by auto
  ultimately show ?thesis by simp
qed

text \<open>
  C8, amended: once the client is constructed, \<^verbatim>\<open>analyze_user_input\<close> makes exactly one
  call to the provider, and returns either an error or a success whose data has all six
  fields. The mood is one of the nine labels and, like the summary and the two tips, is the
  string of the answer, never a default; each list is the validated list of the answer, and
  the empty list when the answer leaves the key out, whatever count was asked for.
\<close>

theorem one_call_then_full_result_or_error:
  assumes "genai_Client p k = Inr c"
  shows "snd (analyze_user_input p t m b k)
           = [Client_init k, Generate_content (build_request t m b)]
   \<and> network_calls (snd (analyze_user_input p t m b k)) = [build_request t m b]
   \<and> ((\<exists>msg. fst (analyze_user_input p t m b k) = Inr (call_error msg))
       \<or> (\<exists>j a. send p (build_request t m b) = Inr (Some (PDict j))
             \<and> fst (analyze_user_input p t m b k)
                 = Inr [(''success'', PBool True), (''data'', PDict (model_dump a))]
             \<and> map fst (model_dump a) = field_names
             \<and> map_of j ''overall_mood'' = Some (PStr (overall_mood a))
             \<and> overall_mood a \<in> set Mood
             \<and> map_of j ''mood_summary'' = Some (PStr (mood_summary a))
             \<and> map_of j ''health_tip_1'' = Some (PStr (health_tip_1 a))
             \<and> map_of j ''health_tip_2'' = Some (PStr (health_tip_2 a))
             \<and> list_field j ''movie_recommendations'' = Some (movie_recommendations a)
             \<and> list_field j ''book_recommendations'' = Some (book_recommendations a)
             \<and> (if map_of j ''movie_recommendations'' = None
                 then movie_recommendations a = [] else True)
             \<and> (if map_of j ''book_recommendations'' = None
                 then book_recommendations a = [] else True)))"
proof (cases "send p (build_request t m b)")
  case (Inl e)
  from analyze_send_raises [OF assms this] show ?thesis by auto
next
  case sent: (Inr payload)
  show ?thesis
  proof (cases payload)
    case None
    with sent analyze_not_json [OF assms] show ?thesis by auto
  next
    case (Some v)
    show ?thesis
    proof (cases "UserAnalysis_validate v")
      case None
      with sent Some analyze_not_valid [OF assms] show ?thesis by auto
    next
      case ok: (Some a)
      from validate_is_dict [OF ok] obtain j where j: "v = PDict j" by blast
      note f = validate_fields [OF ok [unfolded j]]
      have run: "analyze_user_input p t m b k
                 = (Inr [(''success'', PBool True), (''data'', PDict (model_dump a))],
                    [Client_init k, Generate_content (build_request t m b)])"
        using sent Some ok analyze_valid [OF assms] by simp
      have lists: "(if map_of j ''movie_recommendations'' = None
                    then movie_recommendations a = [] else True)
                 \<and> (if map_of j ''book_recommendations'' = None
                    then book_recommendations a = [] else True)"
        using f by (auto simp: list_field_def)
      have "send p (build_request t m b) = Inr (Some (PDict j))
            \<and> fst (analyze_user_input p t m b k)
                 = Inr [(''success'', PBool True), (''data'', PDict (model_dump a))]
            \<and> map fst (model_dump a) = field_names"
        using sent Some j run by (simp add: model_dump_keys)
      with f lists run show ?thesis by auto
    qed
  qed
qed

text \<open>C8, an instance of the amended statement: a provider that answers.\<close>

theorem one_call_then_full_result_or_error_witness:
  "genai_Client answering_provider (Some ''k'') = Inr ()
   \<and> network_calls (snd (analyze_user_input answering_provider ''hello'' 2 0 (Some ''k'')))
       = [build_request ''hello'' 2 0]"
proof -
  have c: "genai_Client answering_provider (Some ''k'') = Inr ()"
    by (simp add: answering_provider_def)
  from one_call_then_full_result_or_error [OF c, of "''hello''" 2 0] c show ?thesis by simp
qed


subsection \<open>C9: either \<^verbatim>\<open>error\<close>, or \<^verbatim>\<open>success\<close> and \<^verbatim>\<open>data\<close>\<close>

text \<open>
  C9: a dictionary returned by \<^verbatim>\<open>analyze_user_input\<close> is either the single key \<^verbatim>\<open>error\<close>
  with a non-empty string, or the keys \<^verbatim>\<open>success\<close> and \<^verbatim>\<open>data\<close>; it never holds both
  \<^verbatim>\<open>error\<close> and \<^verbatim>\<open>data\<close>, and the caller's test \<^verbatim>\<open>result.get("error")\<close> is true exactly
  when the key \<^verbatim>\<open>error\<close> is there.
\<close>

theorem result_has_error_or_data:
  assumes "fst (analyze_user_input p t m b k) = Inr d"
  shows "((\<exists>msg. d = [(''error'', PStr msg)] \<and> msg \<noteq> [])
          \<or> (\<exists>a. d = [(''success'', PBool True), (''data'', PDict (model_dump a))]))
   \<and> \<not> (''error'' \<in> fst ` set d \<and> ''data'' \<in> fst ` set d)
   \<and> truthy (dict_get d ''error'') = (''error'' \<in> fst ` set d)
   \<and> (''data'' \<in> fst ` set d) = (''error'' \<notin> fst ` set d)"
  using analyze_shapes [of p t m b k] assms
  by (auto simp: dict_get_def)

text \<open>C9, an instance: the provider cannot be reached.\<close>

theorem result_has_error_or_data_witness:
  "fst (analyze_user_input unreachable_provider ''hello'' 0 0 (Some ''k''))
     = Inr [(''error'', PStr ''Gemini API Call Failed. Details: 503 UNAVAILABLE'')]
   \<and> truthy (dict_get [(''error'', PStr ''Gemini API Call Failed. Details: 503 UNAVAILABLE'')]
        ''error'')"
proof -
  have r: "fst (analyze_user_input unreachable_provider ''hello'' 0 0 (Some ''k''))
     = Inr [(''error'', PStr ''Gemini API Call Failed. Details: 503 UNAVAILABLE'')]"
    by (simp add: analyze_user_input_def unreachable_provider_def generate_content_def
        then_do_def)
  from result_has_error_or_data [OF r] r show ?thesis by simp
qed


subsection \<open>C10: a mood outside the enumeration has no score\<close>

text \<open>
  C10: for a history entry whose mood is a string outside the nine labels,
  \<^verbatim>\<open>display_history\<close> still draws the chart, with one row for each entry, and the row of that
  entry has no score.
\<close>

theorem unknown_mood_has_no_score:
  assumes "i < length (history st)" and "mood (history st ! i) = PStr m" and "m \<notin> set Mood"
  shows "\<exists>rows. display_history st = Line_chart rows \<and> length rows = length (history st)
           \<and> rows ! i = (timestamp (history st ! i), None)"
proof -
  from assms(1) have "history st \<noteq> []" by auto
  then have "display_history st =
      Line_chart (zip (map timestamp (history st))
                      (Series_map mood_score_map (map mood (history st))))"
    by (simp add: display_history_def)
  moreover have "length (zip (map timestamp (history st))
                      (Series_map mood_score_map (map mood (history st)))) = length (history st)"
    by (simp add: Series_map_def)
  moreover have "zip (map timestamp (history st))
                      (Series_map mood_score_map (map mood (history st))) ! i
                 = (timestamp (history st ! i), None)"
    using assms score_outside_enum [OF assms(3)] by (simp add: Series_map_def)
  ultimately show ?thesis by blast
qed

text \<open>C10, an instance: a history whose only entry has the mood \<^verbatim>\<open>Bored\<close>.\<close>

theorem unknown_mood_has_no_score_witness:
  "0 < length (history bored_state) \<and> mood (history bored_state ! 0) = PStr ''Bored''
   \<and> ''Bored'' \<notin> set Mood
   \<and> display_history bored_state = Line_chart [(3, None)]"
proof -
  have a: "0 < length (history bored_state)" by (simp add: bored_state_def)
  have b: "mood (history bored_state ! 0) = PStr ''Bored''" by (simp add: bored_state_def)
  have c: "''Bored'' \<notin> set Mood" by (simp add: Mood_def)
  from unknown_mood_has_no_score [OF a b c] obtain rows where
    r: "display_history bored_state = Line_chart rows" "length rows = length (history bored_state)"
       "rows ! 0 = (timestamp (history bored_state ! 0), None)"
    by blast
  from r(2) have "length rows = 1" by (simp add: bored_state_def)
  then obtain x where "rows = [x]" by (cases rows) auto
  with r(3) have "rows = [(3, None)]" by (simp add: bored_state_def)
  with r(1) a b c show ?thesis by simp
qed

end
